theory Spec2Isabelle
  imports Main "HOL-Library.Word"
begin

unbundle bit_operations_syntax

section \<open>RFC 6464 audio level RTP header extension (gstrtphdrext-rfc6464.c)\<close>

subsection \<open>C types\<close>

text \<open>
  The C integer types of the file. \<open>gboolean\<close> is GLib's \<open>typedef gint gboolean\<close>, a
  32-bit int whose canonical values are \<open>FALSE = 0\<close> and \<open>TRUE = 1\<close> and which C
  tests for being non-zero. \<open>gsize\<close> and \<open>gssize\<close> are the 64-bit size types; a
  \<open>gssize\<close> of \<open>-1\<close> is the word \<open>- 1\<close>.
\<close>

type_synonym guint8 = "8 word"
type_synonym gint = "32 word"
type_synonym guint = "32 word"
type_synonym gboolean = "32 word"
type_synonym gsize = "64 word"
type_synonym gssize = "64 word"

definition FALSE :: gboolean where
  "FALSE = 0"

definition TRUE :: gboolean where
  "TRUE = 1"

text \<open>A boolean handed to C as a \<open>gboolean\<close>.\<close>

definition gboolean_of :: "bool \<Rightarrow> gboolean" where
  "gboolean_of b = (if b then TRUE else FALSE)"

text \<open>
  Modelled from the spec: the enumeration \<open>GstRTPHeaderExtensionFlags\<close> is declared in
  the RTP base library, not in this file. The one-byte and the two-byte form are two
  distinct single-bit flags, bit 0 and bit 1.
\<close>

type_synonym GstRTPHeaderExtensionFlags = "32 word"

definition GST_RTP_HEADER_EXTENSION_ONE_BYTE :: GstRTPHeaderExtensionFlags where
  "GST_RTP_HEADER_EXTENSION_ONE_BYTE = push_bit 0 1"

definition GST_RTP_HEADER_EXTENSION_TWO_BYTE :: GstRTPHeaderExtensionFlags where
  "GST_RTP_HEADER_EXTENSION_TWO_BYTE = push_bit 1 1"

type_synonym GstRTPHeaderExtensionDirection = "32 word"

subsection \<open>Data\<close>

text \<open>
  Modelled from the spec: \<open>GstAudioLevelMeta\<close> is declared in the audio library; its
  \<open>level\<close> is an unsigned byte and its \<open>voice_activity\<close> a \<open>gboolean\<close>.
\<close>

record GstAudioLevelMeta =
  level :: guint8
  voice_activity :: gboolean

text \<open>
  Modelled from the spec: of a \<open>GstBuffer\<close> only the audio level metas attached to it
  matter here, in the order they were attached.
  \<open>gst_buffer_get_audio_level_meta\<close> gives the first one, or \<open>NULL\<close> when there is none;
  \<open>gst_buffer_add_audio_level_meta\<close> attaches a new one with the level and the voice
  activity it is given.
\<close>

record GstBuffer =
  audio_level_metas :: "GstAudioLevelMeta list"

definition gst_buffer_get_audio_level_meta :: "GstBuffer \<Rightarrow> GstAudioLevelMeta option" where
  "gst_buffer_get_audio_level_meta buffer =
     (case audio_level_metas buffer of [] \<Rightarrow> None | m # ms \<Rightarrow> Some m)"

definition gst_buffer_add_audio_level_meta ::
  "GstBuffer \<Rightarrow> guint8 \<Rightarrow> gboolean \<Rightarrow> GstBuffer" where
  "gst_buffer_add_audio_level_meta buffer lvl va =
     buffer\<lparr>audio_level_metas :=
       audio_level_metas buffer @ [\<lparr>level = lvl, voice_activity = va\<rparr>]\<rparr>"

text \<open>
  \<open>struct _GstRTPHeaderExtensionRfc6464\<close>: the field \<open>vad\<close>, and of the parent object
  the property names \<open>g_object_notify\<close> was called with, latest last.
\<close>

record GstRTPHeaderExtensionRfc6464 =
  vad :: gboolean
  notified :: "string list"

definition DEFAULT_VAD :: gboolean where
  "DEFAULT_VAD = TRUE"

definition g_object_notify ::
  "GstRTPHeaderExtensionRfc6464 \<Rightarrow> string \<Rightarrow> GstRTPHeaderExtensionRfc6464" where
  "g_object_notify self property_name = self\<lparr>notified := notified self @ [property_name]\<rparr>"

text \<open>
  An access to \<open>data[i]\<close> beyond the bytes \<open>data\<close> points to is undefined behaviour in C;
  the model stops with a fault there.
\<close>

datatype fault = OutOfBounds

subsection \<open>Operations\<close>

definition gst_rtp_header_extension_rfc6464_get_supported_flags ::
  "GstRTPHeaderExtensionRfc6464 \<Rightarrow> GstRTPHeaderExtensionFlags" where
  "gst_rtp_header_extension_rfc6464_get_supported_flags ext =
     GST_RTP_HEADER_EXTENSION_ONE_BYTE OR GST_RTP_HEADER_EXTENSION_TWO_BYTE"

definition gst_rtp_header_extension_rfc6464_get_max_size ::
  "GstRTPHeaderExtensionRfc6464 \<Rightarrow> GstBuffer option \<Rightarrow> gsize" where
  "gst_rtp_header_extension_rfc6464_get_max_size ext input_meta = 2"

definition set_vad ::
  "GstRTPHeaderExtensionRfc6464 \<Rightarrow> gboolean \<Rightarrow> GstRTPHeaderExtensionRfc6464" where
  "set_vad self v =
     (if vad self = v then self
      else g_object_notify (self\<lparr>vad := v\<rparr>) ''vad'')"

definition gst_rtp_header_extension_rfc6464_set_attributes ::
  "GstRTPHeaderExtensionRfc6464 \<Rightarrow> GstRTPHeaderExtensionDirection \<Rightarrow> string
     \<Rightarrow> gboolean \<times> GstRTPHeaderExtensionRfc6464" where
  "gst_rtp_header_extension_rfc6464_set_attributes ext direction attributes =
     (if attributes = ''vad=on'' \<or> attributes = '''' then (TRUE, set_vad ext TRUE)
      else if attributes = ''vad=off'' then (TRUE, set_vad ext FALSE)
      else (FALSE, ext))"

text \<open>
  \<open>gst_rtp_header_extension_set_caps_from_attributes_helper\<close> belongs to the RTP base
  library and is a parameter here: it receives the extension, the caps and the attribute
  text chosen from \<open>vad\<close>.
\<close>

definition gst_rtp_header_extension_rfc6464_set_caps_from_attributes ::
  "(GstRTPHeaderExtensionRfc6464 \<Rightarrow> 'caps \<Rightarrow> string \<Rightarrow> 'r)
     \<Rightarrow> GstRTPHeaderExtensionRfc6464 \<Rightarrow> 'caps \<Rightarrow> 'r" where
  "gst_rtp_header_extension_rfc6464_set_caps_from_attributes helper self caps =
     (let v = (if vad self \<noteq> 0 then ''vad=on'' else ''vad=off'')
      in helper self caps v)"

text \<open>
  \<open>write\<close>: \<open>data\<close> is the memory the pointer \<open>data\<close> points to and \<open>sz\<close> the \<open>size\<close> the
  caller announces. Each \<open>g_return_val_if_fail\<close> returns its value when its condition is
  false. The result is the \<open>gssize\<close> returned together with the memory afterwards. The
  local \<open>level\<close> is cropped to 127, and the byte stored is computed from \<open>meta->level\<close>;
  the operands are promoted to \<open>int\<close> and the result is cut to a byte by the store.
\<close>

definition gst_rtp_header_extension_rfc6464_write ::
  "GstRTPHeaderExtensionRfc6464 \<Rightarrow> GstBuffer \<Rightarrow> GstRTPHeaderExtensionFlags
     \<Rightarrow> guint8 list \<Rightarrow> gsize \<Rightarrow> fault + (gssize \<times> guint8 list)" where
  "gst_rtp_header_extension_rfc6464_write ext input_meta write_flags data sz =
     (if \<not> (sz \<ge> gst_rtp_header_extension_rfc6464_get_max_size ext None)
        then Inr (- 1, data)
      else if write_flags AND gst_rtp_header_extension_rfc6464_get_supported_flags ext = 0
        then Inr (- 1, data)
      else
        (case gst_buffer_get_audio_level_meta input_meta of
           None \<Rightarrow> Inr (0, data)
         | Some meta \<Rightarrow>
             (let level0 = (ucast (level meta) :: guint);
                  level1 = (if level0 > 127 then 127 else level0);
                  byte0 = (ucast (((ucast (level meta) :: gint) AND 0x7F)
                             OR push_bit 7 (voice_activity meta)) :: guint8)
              in if length data \<le> 0 then Inl OutOfBounds
                 else
                   (let data1 = data[0 := byte0]
                    in if write_flags AND GST_RTP_HEADER_EXTENSION_ONE_BYTE \<noteq> 0
                         then Inr (1, data1)
                       else if length data1 \<le> 1 then Inl OutOfBounds
                       else Inr (2, data1[1 := 0])))))"

text \<open>
  \<open>read\<close>: the result is the \<open>gboolean\<close> returned together with the buffer afterwards.
  The guard returns \<open>-1\<close>, as the source writes it. \<open>size\<close> is not looked at.
\<close>

definition gst_rtp_header_extension_rfc6464_read ::
  "GstRTPHeaderExtensionRfc6464 \<Rightarrow> GstRTPHeaderExtensionFlags \<Rightarrow> guint8 list \<Rightarrow> gsize
     \<Rightarrow> GstBuffer \<Rightarrow> fault + (gboolean \<times> GstBuffer)" where
  "gst_rtp_header_extension_rfc6464_read ext read_flags data sz buffer =
     (if read_flags AND gst_rtp_header_extension_rfc6464_get_supported_flags ext = 0
        then Inr (- 1, buffer)
      else if length data \<le> 0 then Inl OutOfBounds
      else
        (let lvl = (ucast ((ucast (data ! 0) :: gint) AND 0x7F) :: guint8);
             va = (drop_bit 7 ((ucast (data ! 0) :: gint) AND 0x80) :: gboolean)
         in Inr (TRUE, gst_buffer_add_audio_level_meta buffer lvl va)))"

definition gst_rtp_header_extension_rfc6464_init :: "GstRTPHeaderExtensionRfc6464" where
  "gst_rtp_header_extension_rfc6464_init = \<lparr>vad = DEFAULT_VAD, notified = []\<rparr>"

section \<open>Bit-level facts about the wire byte\<close>

text \<open>
  The expressions of the source work on operands promoted to \<open>int\<close>; on the byte they
  come down to a mask with \<open>0x7F\<close> and to bit 7.
\<close>

lemma mask7: "(0x7F :: 'a::len word) = mask 7"
  by (simp add: mask_eq_exp_minus_1)

lemma byte_level: "(ucast ((ucast (b::8 word) :: 32 word) AND 0x7F) :: 8 word) = b AND 0x7F"
  unfolding mask7 by (rule bit_word_eqI) (auto simp add: bit_simps)

lemma bit7_word: "(0x80 :: 'a::len word) = push_bit 7 1"
  by simp

lemma and_0x80_iff: "((b :: 8 word) AND 0x80 \<noteq> 0) = bit b 7"
  using bit_iff_and_push_bit_not_eq_0 [of b 7] by simp

lemma byte_va:
  "(drop_bit 7 ((ucast (b::8 word) :: 32 word) AND 0x80) :: 32 word) = (if bit b 7 then 1 else 0)"
  unfolding bit7_word by (rule bit_word_eqI) (auto simp add: bit_simps intro!: gr0I)

lemma write_byte:
  "(ucast (((ucast (l::8 word) :: 32 word) AND 0x7F) OR push_bit 7 (v :: 32 word)) :: 8 word)
     = (l AND 0x7F) OR push_bit 7 (ucast v)"
  unfolding mask7 by (rule bit_word_eqI) (auto simp add: bit_simps)

lemma low7: "((l AND 0x7F) OR push_bit 7 (w::8 word)) AND 0x7F = l AND 0x7F"
  unfolding mask7 by (rule bit_word_eqI) (auto simp add: bit_simps)

lemma hi1: "bit ((l AND 0x7F) OR push_bit 7 (w::8 word)) 7 = bit w 0"
  unfolding mask7 by (simp add: bit_simps)

lemma le127: "(l :: 8 word) \<le> 127 \<Longrightarrow> l AND 0x7F = l"
proof -
  assume "l \<le> 127"
  then have "l < 2 ^ 7" by (simp add: word_le_nat_alt word_less_nat_alt)
  then show ?thesis unfolding mask7 by (rule less_mask_eq)
qed

lemma and_le127: "(l :: 8 word) AND 0x7F \<le> 127"
  by (rule word_and_le1)

lemma bit0_gbool: "bit (ucast (gboolean_of va) :: 8 word) 0 = va"
  by (simp add: gboolean_of_def TRUE_def FALSE_def)

section \<open>What write and read compute\<close>

lemma gsize_ge_2: "(2 :: 64 word) \<le> sz \<Longrightarrow> unat sz \<le> n \<Longrightarrow> 2 \<le> n"
  by (simp add: word_le_nat_alt)

lemma write_with_meta:
  assumes sz: "2 \<le> sz" and len: "unat sz \<le> length data"
    and fl: "write_flags AND gst_rtp_header_extension_rfc6464_get_supported_flags ext \<noteq> 0"
    and meta: "gst_buffer_get_audio_level_meta input_meta = Some meta"
  shows "gst_rtp_header_extension_rfc6464_write ext input_meta write_flags data sz =
     Inr (if write_flags AND GST_RTP_HEADER_EXTENSION_ONE_BYTE \<noteq> 0
          then (1, data[0 := (level meta AND 0x7F) OR push_bit 7 (ucast (voice_activity meta))])
          else (2, data[0 := (level meta AND 0x7F) OR push_bit 7 (ucast (voice_activity meta)),
                       1 := 0]))"
proof -
  have l2: "2 \<le> length data" using sz len by (rule gsize_ge_2)
  then have l: "data \<noteq> []" "\<not> length data \<le> Suc 0" by auto
  show ?thesis
    unfolding gst_rtp_header_extension_rfc6464_write_def write_byte
    using sz fl l
    by (simp add: meta gst_rtp_header_extension_rfc6464_get_max_size_def Let_def)
qed

lemma read_supported:
  assumes fl: "read_flags AND gst_rtp_header_extension_rfc6464_get_supported_flags ext \<noteq> 0"
  shows "gst_rtp_header_extension_rfc6464_read ext read_flags (b # rest) sz buffer =
     Inr (TRUE, gst_buffer_add_audio_level_meta buffer (b AND 0x7F) (if bit b 7 then 1 else 0))"
  unfolding gst_rtp_header_extension_rfc6464_read_def Let_def nth_Cons_0 byte_level byte_va
  using fl by simp

lemma read_unsupported:
  assumes fl: "read_flags AND gst_rtp_header_extension_rfc6464_get_supported_flags ext = 0"
  shows "gst_rtp_header_extension_rfc6464_read ext read_flags data sz buffer = Inr (- 1, buffer)"
  unfolding gst_rtp_header_extension_rfc6464_read_def
  using fl by simp


lemma decode_encoded_byte:
  assumes "level meta \<le> 127" and "voice_activity meta = gboolean_of va"
  shows "gst_buffer_add_audio_level_meta buffer
           (((level meta AND 0x7F) OR push_bit 7 (ucast (voice_activity meta))) AND 0x7F)
           (if bit ((level meta AND 0x7F) OR push_bit 7 (ucast (voice_activity meta) :: 8 word)) 7
            then 1 else 0)
         = buffer\<lparr>audio_level_metas := audio_level_metas buffer @ [meta]\<rparr>"
proof -
  have lv: "((level meta AND 0x7F) OR push_bit 7 (ucast (voice_activity meta))) AND 0x7F
              = level meta"
    unfolding low7 by (rule le127 [OF assms(1)])
  have "bit ((level meta AND 0x7F) OR push_bit 7 (ucast (voice_activity meta) :: 8 word)) 7 = va"
    by (simp only: hi1 assms(2) bit0_gbool)
  then have va: "(if bit ((level meta AND 0x7F) OR push_bit 7 (ucast (voice_activity meta) :: 8 word)) 7
            then 1 else 0) = voice_activity meta"
    by (simp add: assms(2) gboolean_of_def TRUE_def FALSE_def)
  show ?thesis
    unfolding lv va gst_buffer_add_audio_level_meta_def by simp
qed

lemmas flag_defs = gst_rtp_header_extension_rfc6464_get_supported_flags_def
      GST_RTP_HEADER_EXTENSION_ONE_BYTE_def GST_RTP_HEADER_EXTENSION_TWO_BYTE_def

lemma vad_set_vad: "vad (set_vad self v) = v"
  by (simp add: set_vad_def g_object_notify_def)

section \<open>Properties\<close>

text \<open>
  C1: for every level in 0..127 and every boolean voice activity, writing the meta in a
  supported form (one-byte or two-byte) into a large enough area succeeds with 1 or 2
  bytes, and reading the bytes produced in a supported form succeeds and attaches a meta
  equal to the one written.
\<close>

theorem write_read_roundtrip:
  assumes lv: "level meta \<le> 127" and va: "voice_activity meta = gboolean_of va"
    and meta: "gst_buffer_get_audio_level_meta input_meta = Some meta"
    and wfl: "write_flags AND gst_rtp_header_extension_rfc6464_get_supported_flags ext \<noteq> 0"
    and rfl: "read_flags AND gst_rtp_header_extension_rfc6464_get_supported_flags ext' \<noteq> 0"
    and sz: "2 \<le> sz" and len: "unat sz \<le> length data"
  shows "\<exists>n data'.
           gst_rtp_header_extension_rfc6464_write ext input_meta write_flags data sz
             = Inr (n, data') \<and>
           (n = 1 \<or> n = 2) \<and>
           gst_rtp_header_extension_rfc6464_read ext' read_flags (take (unat n) data') n buffer
             = Inr (TRUE, buffer\<lparr>audio_level_metas := audio_level_metas buffer @ [meta]\<rparr>)"
proof -
  have "2 \<le> length data" using sz len by (rule gsize_ge_2)
  then obtain x y rest where data: "data = x # y # rest"
    by (cases data; cases "tl data") auto
  note w = write_with_meta [OF sz len wfl meta, unfolded data]
  show ?thesis
  proof (cases "write_flags AND GST_RTP_HEADER_EXTENSION_ONE_BYTE \<noteq> 0")
    case True
    then show ?thesis
      unfolding data
      by (simp add: w read_supported [OF rfl] decode_encoded_byte [OF lv va])
  next
    case False
    then show ?thesis
      unfolding data
      by (simp add: w read_supported [OF rfl] decode_encoded_byte [OF lv va])
  qed
qed

text \<open>The round trip at level 42 without voice activity, in the two-byte form.\<close>

theorem write_read_roundtrip_witness:
  "\<exists>n data'.
     gst_rtp_header_extension_rfc6464_write gst_rtp_header_extension_rfc6464_init
       \<lparr>audio_level_metas = [\<lparr>level = 42, voice_activity = gboolean_of False\<rparr>]\<rparr>
       GST_RTP_HEADER_EXTENSION_TWO_BYTE [9, 9] 2 = Inr (n, data') \<and>
     (n = 1 \<or> n = 2) \<and>
     gst_rtp_header_extension_rfc6464_read gst_rtp_header_extension_rfc6464_init
       GST_RTP_HEADER_EXTENSION_TWO_BYTE (take (unat n) data') n \<lparr>audio_level_metas = []\<rparr>
       = Inr (TRUE, \<lparr>audio_level_metas = []\<rparr>\<lparr>audio_level_metas :=
           audio_level_metas \<lparr>audio_level_metas = []\<rparr>
             @ [\<lparr>level = 42, voice_activity = gboolean_of False\<rparr>]\<rparr>)"
  by (rule write_read_roundtrip [where va = False])
    (simp_all add: gst_buffer_get_audio_level_meta_def
      gst_rtp_header_extension_rfc6464_get_supported_flags_def
      GST_RTP_HEADER_EXTENSION_ONE_BYTE_def GST_RTP_HEADER_EXTENSION_TWO_BYTE_def)

text \<open>
  C2: the claim is that for every level above 127 write stores the same byte 0 as for
  level 127. The source crops its local \<open>level\<close> to 127 and then builds the byte from
  \<open>meta->level\<close>: at level 128 without voice activity byte 0 is \<open>0x00\<close>, where
  level 127 gives \<open>0x7F\<close>.
\<close>

theorem write_level_128_not_cropped:
  "gst_rtp_header_extension_rfc6464_write gst_rtp_header_extension_rfc6464_init
     \<lparr>audio_level_metas = [\<lparr>level = 128, voice_activity = FALSE\<rparr>]\<rparr>
     GST_RTP_HEADER_EXTENSION_ONE_BYTE [9, 9] 2 = Inr (1, [0x00, 9]) \<and>
   gst_rtp_header_extension_rfc6464_write gst_rtp_header_extension_rfc6464_init
     \<lparr>audio_level_metas = [\<lparr>level = 127, voice_activity = FALSE\<rparr>]\<rparr>
     GST_RTP_HEADER_EXTENSION_ONE_BYTE [9, 9] 2 = Inr (1, [0x7F, 9])"
  by (simp add: gst_rtp_header_extension_rfc6464_write_def
      gst_rtp_header_extension_rfc6464_get_max_size_def
      gst_rtp_header_extension_rfc6464_get_supported_flags_def
      GST_RTP_HEADER_EXTENSION_ONE_BYTE_def GST_RTP_HEADER_EXTENSION_TWO_BYTE_def
      gst_buffer_get_audio_level_meta_def FALSE_def Let_def)

text \<open>
  C3: whatever the level of the meta (0..255) and whatever its voice activity word, write
  with a supported form and a large enough area does not fail: it returns 1 or 2, and
  the low seven bits of the byte 0 it stored are the low seven bits of the level, a
  value of at most 127.
\<close>

theorem write_level_never_above_127:
  assumes meta: "gst_buffer_get_audio_level_meta input_meta = Some meta"
    and wfl: "write_flags AND gst_rtp_header_extension_rfc6464_get_supported_flags ext \<noteq> 0"
    and sz: "2 \<le> sz" and len: "unat sz \<le> length data"
  shows "\<exists>n data'.
           gst_rtp_header_extension_rfc6464_write ext input_meta write_flags data sz
             = Inr (n, data') \<and>
           (n = 1 \<or> n = 2) \<and>
           (data' ! 0) AND 0x7F = level meta AND 0x7F \<and>
           (data' ! 0) AND 0x7F \<le> 127"
proof -
  have "2 \<le> length data" using sz len by (rule gsize_ge_2)
  then obtain x y rest where data: "data = x # y # rest"
    by (cases data; cases "tl data") auto
  note w = write_with_meta [OF sz len wfl meta, unfolded data]
  show ?thesis
    unfolding data by (simp add: w low7 and_le127)
qed

text \<open>
  Level 200 with voice activity, one-byte form.
\<close>

theorem write_level_never_above_127_witness:
  "\<exists>n data'.
     gst_rtp_header_extension_rfc6464_write gst_rtp_header_extension_rfc6464_init
       \<lparr>audio_level_metas = [\<lparr>level = 200, voice_activity = TRUE\<rparr>]\<rparr>
       GST_RTP_HEADER_EXTENSION_ONE_BYTE [9, 9] 2 = Inr (n, data') \<and>
     (n = 1 \<or> n = 2) \<and>
     (data' ! 0) AND 0x7F = level \<lparr>level = 200, voice_activity = TRUE\<rparr> AND 0x7F \<and>
     (data' ! 0) AND 0x7F \<le> 127"
  by (rule write_level_never_above_127)
    (simp_all add: gst_buffer_get_audio_level_meta_def
      gst_rtp_header_extension_rfc6464_get_supported_flags_def
      GST_RTP_HEADER_EXTENSION_ONE_BYTE_def GST_RTP_HEADER_EXTENSION_TWO_BYTE_def)

text \<open>
  C4: for every byte \<open>b\<close> at index 0 of a non-empty input, read with a supported form
  returns \<open>TRUE\<close> and attaches a new meta with level \<open>b & 0x7F\<close> and voice activity
  \<open>(b & 0x80) != 0\<close>; no byte value is rejected.
\<close>

theorem read_any_byte:
  assumes rfl: "read_flags AND gst_rtp_header_extension_rfc6464_get_supported_flags ext \<noteq> 0"
  shows "gst_rtp_header_extension_rfc6464_read ext read_flags (b # rest) sz buffer =
     Inr (TRUE, gst_buffer_add_audio_level_meta buffer (b AND 0x7F)
                  (gboolean_of (b AND 0x80 \<noteq> 0)))"
  unfolding read_supported [OF rfl] and_0x80_iff gboolean_of_def TRUE_def FALSE_def ..

text \<open>
  The byte \<open>0x85\<close> reads as level 5 with voice activity.
\<close>

theorem read_any_byte_witness:
  "gst_rtp_header_extension_rfc6464_read gst_rtp_header_extension_rfc6464_init
     GST_RTP_HEADER_EXTENSION_ONE_BYTE [0x85] 1 \<lparr>audio_level_metas = []\<rparr> =
   Inr (TRUE, \<lparr>audio_level_metas = [\<lparr>level = 5, voice_activity = TRUE\<rparr>]\<rparr>)"
proof -
  have h: "GST_RTP_HEADER_EXTENSION_ONE_BYTE AND
      gst_rtp_header_extension_rfc6464_get_supported_flags gst_rtp_header_extension_rfc6464_init \<noteq> 0"
    by (simp add: flag_defs)
  show ?thesis
    unfolding read_any_byte [OF h]
    by (simp add: gst_buffer_add_audio_level_meta_def gboolean_of_def)
qed

text \<open>
  C5: when the input buffer carries no audio level meta, write with a supported form and
  a size of at least 2 returns 0 and leaves every byte of the output area as it was.
\<close>

theorem write_no_meta:
  assumes meta: "gst_buffer_get_audio_level_meta input_meta = None"
    and wfl: "write_flags AND gst_rtp_header_extension_rfc6464_get_supported_flags ext \<noteq> 0"
    and sz: "2 \<le> sz"
  shows "gst_rtp_header_extension_rfc6464_write ext input_meta write_flags data sz = Inr (0, data)"
  unfolding gst_rtp_header_extension_rfc6464_write_def
  using wfl sz by (simp add: meta gst_rtp_header_extension_rfc6464_get_max_size_def)

text \<open>
  A buffer without metas, two-byte form.
\<close>

theorem write_no_meta_witness:
  "gst_rtp_header_extension_rfc6464_write gst_rtp_header_extension_rfc6464_init
     \<lparr>audio_level_metas = []\<rparr> GST_RTP_HEADER_EXTENSION_TWO_BYTE [7, 9] 2 = Inr (0, [7, 9])"
  by (rule write_no_meta)
    (simp_all add: gst_buffer_get_audio_level_meta_def flag_defs)

text \<open>
  C6: from every prior state, \<open>set_attributes\<close> succeeds and leaves \<open>vad\<close> true on
  \<open>"vad=on"\<close> and on \<open>""\<close>, succeeds and leaves \<open>vad\<close> false on \<open>"vad=off"\<close>, and on
  every other text returns \<open>FALSE\<close> with the state exactly as before.
\<close>

theorem set_attributes_vad:
  "(attributes = ''vad=on'' \<or> attributes = '''' \<longrightarrow>
      fst (gst_rtp_header_extension_rfc6464_set_attributes ext direction attributes) = TRUE \<and>
      vad (snd (gst_rtp_header_extension_rfc6464_set_attributes ext direction attributes)) = TRUE) \<and>
   (attributes = ''vad=off'' \<longrightarrow>
      fst (gst_rtp_header_extension_rfc6464_set_attributes ext direction attributes) = TRUE \<and>
      vad (snd (gst_rtp_header_extension_rfc6464_set_attributes ext direction attributes)) = FALSE) \<and>
   (attributes \<noteq> ''vad=on'' \<and> attributes \<noteq> '''' \<and> attributes \<noteq> ''vad=off'' \<longrightarrow>
      gst_rtp_header_extension_rfc6464_set_attributes ext direction attributes = (FALSE, ext))"
  by (simp add: gst_rtp_header_extension_rfc6464_set_attributes_def vad_set_vad)

text \<open>
  The three accepted texts and a rejected one.
\<close>

theorem set_attributes_vad_witness:
  "vad (snd (gst_rtp_header_extension_rfc6464_set_attributes
               \<lparr>vad = FALSE, notified = []\<rparr> 0 ''vad=on'')) = TRUE \<and>
   vad (snd (gst_rtp_header_extension_rfc6464_set_attributes
               \<lparr>vad = FALSE, notified = []\<rparr> 0 '''')) = TRUE \<and>
   vad (snd (gst_rtp_header_extension_rfc6464_set_attributes
               \<lparr>vad = TRUE, notified = []\<rparr> 0 ''vad=off'')) = FALSE \<and>
   gst_rtp_header_extension_rfc6464_set_attributes \<lparr>vad = FALSE, notified = []\<rparr> 0 ''garbage''
     = (FALSE, \<lparr>vad = FALSE, notified = []\<rparr>)"
  using set_attributes_vad [of "''vad=on''" "\<lparr>vad = FALSE, notified = []\<rparr>" 0]
    set_attributes_vad [of "''''" "\<lparr>vad = FALSE, notified = []\<rparr>" 0]
    set_attributes_vad [of "''vad=off''" "\<lparr>vad = TRUE, notified = []\<rparr>" 0]
    set_attributes_vad [of "''garbage''" "\<lparr>vad = FALSE, notified = []\<rparr>" 0]
  by simp

text \<open>
  C7: the claim is that read with a form outside the supported ones fails. The guard of
  the source returns \<open>-1\<close> from a function whose result is a \<open>gboolean\<close>: no meta is
  attached, and the value returned is not \<open>FALSE\<close>, so a caller testing the result sees
  a success.
\<close>

theorem read_unsupported_returns_minus_1:
  "gst_rtp_header_extension_rfc6464_read gst_rtp_header_extension_rfc6464_init
     0 [0x85] 1 \<lparr>audio_level_metas = []\<rparr> = Inr (- 1, \<lparr>audio_level_metas = []\<rparr>) \<and>
   (- 1 :: gboolean) \<noteq> FALSE"
  by (simp add: gst_rtp_header_extension_rfc6464_read_def FALSE_def)

text \<open>
  C8: \<open>set_caps_from_attributes\<close> hands the helper exactly \<open>"vad=on"\<close> when \<open>vad\<close> is
  true and exactly \<open>"vad=off"\<close> when it is false, whatever else the state holds; after a
  successful \<open>set_attributes\<close> with text \<open>x\<close> it hands over the canonical form of \<open>x\<close>,
  which for \<open>""\<close> is \<open>"vad=on"\<close>.
\<close>

theorem set_caps_from_attributes_text:
  "(vad ext = TRUE \<longrightarrow>
      gst_rtp_header_extension_rfc6464_set_caps_from_attributes helper ext caps
        = helper ext caps ''vad=on'') \<and>
   (vad ext = FALSE \<longrightarrow>
      gst_rtp_header_extension_rfc6464_set_caps_from_attributes helper ext caps
        = helper ext caps ''vad=off'') \<and>
   (gst_rtp_header_extension_rfc6464_set_attributes ext0 direction attributes = (TRUE, ext1) \<longrightarrow>
      gst_rtp_header_extension_rfc6464_set_caps_from_attributes helper ext1 caps
        = helper ext1 caps (if attributes = ''vad=off'' then ''vad=off'' else ''vad=on''))"
  by (auto simp add: gst_rtp_header_extension_rfc6464_set_caps_from_attributes_def
      gst_rtp_header_extension_rfc6464_set_attributes_def vad_set_vad TRUE_def FALSE_def
      split: if_splits)

text \<open>
  With a helper that returns the text it is given.
\<close>

theorem set_caps_from_attributes_text_witness:
  "gst_rtp_header_extension_rfc6464_set_caps_from_attributes (\<lambda>e c a. a)
     \<lparr>vad = TRUE, notified = []\<rparr> () = ''vad=on'' \<and>
   gst_rtp_header_extension_rfc6464_set_caps_from_attributes (\<lambda>e c a. a)
     \<lparr>vad = FALSE, notified = []\<rparr> () = ''vad=off'' \<and>
   gst_rtp_header_extension_rfc6464_set_caps_from_attributes (\<lambda>e c a. a)
     (snd (gst_rtp_header_extension_rfc6464_set_attributes \<lparr>vad = FALSE, notified = []\<rparr> 0 ''''))
     () = ''vad=on''"
proof -
  have s: "gst_rtp_header_extension_rfc6464_set_attributes \<lparr>vad = FALSE, notified = []\<rparr> 0 ''''
      = (TRUE, \<lparr>vad = TRUE, notified = [''vad'']\<rparr>)"
    by (simp add: gst_rtp_header_extension_rfc6464_set_attributes_def set_vad_def
        g_object_notify_def TRUE_def FALSE_def)
  show ?thesis
    using set_caps_from_attributes_text [of "\<lparr>vad = TRUE, notified = []\<rparr>" "\<lambda>e c a. a" "()"
        "\<lparr>vad = FALSE, notified = []\<rparr>" 0 "''''" "\<lparr>vad = TRUE, notified = [''vad'']\<rparr>"]
      set_caps_from_attributes_text [of "\<lparr>vad = FALSE, notified = []\<rparr>" "\<lambda>e c a. a" "()"
        "\<lparr>vad = FALSE, notified = []\<rparr>" 0 "''''" "\<lparr>vad = TRUE, notified = [''vad'']\<rparr>"]
      s
    by simp
qed

text \<open>
  C9: write and read give the same result (value returned, bytes stored, meta attached)
  in any two states of the extension, in particular in two states that differ only in
  \<open>vad\<close>.
\<close>

theorem write_read_independent_of_vad:
  "gst_rtp_header_extension_rfc6464_write ext1 input_meta write_flags data sz
     = gst_rtp_header_extension_rfc6464_write ext2 input_meta write_flags data sz \<and>
   gst_rtp_header_extension_rfc6464_read ext1 read_flags data sz buffer
     = gst_rtp_header_extension_rfc6464_read ext2 read_flags data sz buffer"
  by (simp add: gst_rtp_header_extension_rfc6464_write_def
      gst_rtp_header_extension_rfc6464_read_def
      gst_rtp_header_extension_rfc6464_get_supported_flags_def
      gst_rtp_header_extension_rfc6464_get_max_size_def)

text \<open>
  C10: on an input of at least one byte and with a supported form, read gives the same
  result as on the one-byte input holding only byte 0, whatever the bytes after it and
  whatever the size announced, and it does not reach the out-of-bounds fault.
\<close>

theorem read_only_byte_0:
  assumes len: "1 \<le> length data"
    and rfl: "read_flags AND gst_rtp_header_extension_rfc6464_get_supported_flags ext \<noteq> 0"
  shows "gst_rtp_header_extension_rfc6464_read ext read_flags data sz buffer
           = gst_rtp_header_extension_rfc6464_read ext read_flags [data ! 0] sz' buffer \<and>
         gst_rtp_header_extension_rfc6464_read ext read_flags data sz buffer \<noteq> Inl OutOfBounds"
proof -
  from len obtain b rest where data: "data = b # rest" by (cases data) auto
  show ?thesis unfolding data by (simp add: read_supported [OF rfl])
qed

text \<open>
  The two-byte form with a non-zero second byte.
\<close>

theorem read_only_byte_0_witness:
  "gst_rtp_header_extension_rfc6464_read gst_rtp_header_extension_rfc6464_init
       GST_RTP_HEADER_EXTENSION_TWO_BYTE [0x2A, 0xFF] 2 \<lparr>audio_level_metas = []\<rparr>
     = gst_rtp_header_extension_rfc6464_read gst_rtp_header_extension_rfc6464_init
         GST_RTP_HEADER_EXTENSION_TWO_BYTE [[0x2A, 0xFF] ! 0] 1 \<lparr>audio_level_metas = []\<rparr> \<and>
   gst_rtp_header_extension_rfc6464_read gst_rtp_header_extension_rfc6464_init
       GST_RTP_HEADER_EXTENSION_TWO_BYTE [0x2A, 0xFF] 2 \<lparr>audio_level_metas = []\<rparr>
     \<noteq> Inl OutOfBounds"
  by (rule read_only_byte_0) (simp_all add: flag_defs)

end
